theory Spec2Isabelle
  imports Complex_Main "HOL-Library.Word"
begin

section \<open>Clipper2: the engine's front ends, the offsetter's settings and the test-file writer\<close>

text \<open>
  A shallow embedding of three files of the library:
  \<^item> \<^verbatim>\<open>CPP/Clipper2Lib/clipper.engine.h\<close>: the enumerations, \<^verbatim>\<open>ClipperBase\<close>'s
    members, \<^verbatim>\<open>PolyPath\<close> and the \<^verbatim>\<open>ClipperD\<close> adapter;
  \<^item> \<^verbatim>\<open>CPP/Clipper2Lib/clipper.offset.h\<close>: \<^verbatim>\<open>ClipperOffset\<close>'s members, constructor
    and property getters;
  \<^item> \<^verbatim>\<open>CPP/Utils/ClipFileSave.cpp\<close>: \<^verbatim>\<open>BMH_Search\<close>, \<^verbatim>\<open>PathsToStream\<close> and
    \<^verbatim>\<open>SaveTest\<close>.

  Conventions of the embedding.
  \<^item> Isabelle does not accept a name that ends in an underscore, so a C++ member
    \<^verbatim>\<open>foo_\<close> is the record field \<open>foo_'\<close>. A name that is an Isabelle keyword, or a
    library constant that the model needs itself, gets a prime as well (\<open>end'\<close>,
    \<open>append'\<close>, and \<open>None'\<close> for \<^verbatim>\<open>ClipType::None\<close>, since \<open>None\<close> is the null pointer).
  \<^item> \<^verbatim>\<open>int64_t\<close> is \<open>64 word\<close>, read as two's complement by \<open>sint\<close>.
  \<^item> \<^verbatim>\<open>double\<close> is \<open>real\<close>. The code modelled here only stores, copies and returns
    doubles, and forms one power of ten and one reciprocal, which stay symbolic; no
    theorem below depends on floating-point rounding.
  \<^item> A \<^verbatim>\<open>std::vector\<close> and a \<^verbatim>\<open>std::string\<close> are lists, a nullable pointer is an
    \<open>option\<close>, a reference parameter that the callee writes is an argument and a
    component of the result.
  \<^item> Reads outside an array, a null or dangling pointer, a pointer that was never given a
    value and a loop that cannot advance are results \<open>Inl e\<close> of a sum type.
\<close>

datatype error = OutOfBounds | NullPointer | DanglingPointer | NoProgress | Uninitialised

subsection \<open>Enumerations (clipper.engine.h, clipper.offset.h)\<close>

datatype ClipType = None' | Intersection | Union | Difference | Xor

datatype PathType = Subject | Clip

datatype FillRule = EvenOdd | NonZero | Positive | Negative

datatype JoinType = Square | Round | Miter

datatype EndType = Polygon | Joined | Butt | Square | Round

subsection \<open>Points and paths (templates of clipper.core.h, used by all three files)\<close>

type_synonym int64 = "64 word"

record 'a Point =
  x :: 'a
  y :: 'a

type_synonym Point64 = "int64 Point"
type_synonym PointD = "real Point"
type_synonym Path64 = "Point64 list"
type_synonym PathD = "PointD list"
type_synonym Paths64 = "Path64 list"
type_synonym PathsD = "PathD list"

subsection \<open>ClipperOffset (clipper.offset.h)\<close>

record PathGroup =
  paths_in_' :: Paths64
  paths_out_' :: Paths64
  path_' :: Path64
  is_reversed :: bool
  join_type :: JoinType
  end_type :: EndType

text \<open>
  The private members of \<^verbatim>\<open>ClipperOffset\<close>, in declaration order. Their default member
  initialisers are the values the constructor below starts from.
\<close>

record ClipperOffset =
  delta_' :: real
  temp_lim_' :: real
  steps_per_rad_' :: real
  norms :: PathD
  groups_' :: "PathGroup list"
  join_type_' :: JoinType
  miter_limit_' :: real
  arc_tolerance_' :: real
  merge_groups_' :: bool
  preserve_collinear_' :: bool

text \<open>
  \<^verbatim>\<open>ClipperOffset(double miter_limit = 2.0, double arc_tolerance = 0.0, int precision = 2,
  bool preserve_collinear = false)\<close>: the member initialiser list sets three members from the
  arguments (\<^verbatim>\<open>precision\<close> is not used); every other member keeps its default
  initialiser.
\<close>

definition ClipperOffset_ctor :: "real \<Rightarrow> real \<Rightarrow> int \<Rightarrow> bool \<Rightarrow> ClipperOffset" where
  "ClipperOffset_ctor miter_limit arc_tolerance precision preserve_collinear =
     \<lparr> delta_' = 0.0, temp_lim_' = 0.0, steps_per_rad_' = 0.0, norms = [], groups_' = [],
       join_type_' = JoinType.Square,
       miter_limit_' = miter_limit, arc_tolerance_' = arc_tolerance,
       merge_groups_' = True, preserve_collinear_' = preserve_collinear \<rparr>"

text \<open>The constructor called with no arguments: every parameter takes its default.\<close>

definition ClipperOffset_default :: ClipperOffset where
  "ClipperOffset_default = ClipperOffset_ctor 2.0 0.0 2 False"

definition MiterLimit :: "ClipperOffset \<Rightarrow> real" where
  "MiterLimit co = miter_limit_' co"

definition ArcTolerance :: "ClipperOffset \<Rightarrow> real" where
  "ArcTolerance co = arc_tolerance_' co"

definition MergeGroups :: "ClipperOffset \<Rightarrow> bool" where
  "MergeGroups co = merge_groups_' co"

text \<open>
  \<^verbatim>\<open>ClipperOffset::PreserveCollinear()\<close>, the getter. (\<^verbatim>\<open>ClipperBase\<close> has a public data
  member of the same name; it is the record field \<open>PreserveCollinear\<close> of \<open>ClipperBase\<close>
  below.)
\<close>

definition ClipperOffset_PreserveCollinear :: "ClipperOffset \<Rightarrow> bool" where
  "ClipperOffset_PreserveCollinear co = preserve_collinear_' co"

subsection \<open>ClipperBase (clipper.engine.h)\<close>

text \<open>
  Of \<^verbatim>\<open>ClipperBase\<close> the header gives the members and their default member initialisers;
  the member functions are defined in clipper.engine.cpp. The record keeps the scalar
  members; the pointer-linked lists of the sweep (\<^verbatim>\<open>actives_\<close>, \<^verbatim>\<open>minima_list_\<close>,
  \<^verbatim>\<open>outrec_list_\<close> and the others) are read and written only by the functions of that
  file.
\<close>

record ClipperBase =
  cliptype_' :: ClipType
  fillrule_' :: FillRule
  bot_y_' :: int64
  error_found_' :: bool
  has_open_paths_' :: bool
  minima_list_sorted_' :: bool
  using_polytree :: bool
  PreserveCollinear :: bool

text \<open>\<^verbatim>\<open>ClipperBase() {}\<close>: every member keeps its default member initialiser.\<close>

definition ClipperBase_ctor :: ClipperBase where
  "ClipperBase_ctor =
     \<lparr> cliptype_' = None', fillrule_' = EvenOdd, bot_y_' = 0, error_found_' = False,
       has_open_paths_' = False, minima_list_sorted_' = False, using_polytree = False,
       PreserveCollinear = True \<rparr>"

subsection \<open>PolyPath (clipper.engine.h)\<close>

text \<open>
  A \<^verbatim>\<open>PolyPath<T>\<close> node holds a pointer to its parent and the pointers to its children.
  The nodes of one tree live in a store, a list indexed by address: the root is created
  first, at address 0, and \<^verbatim>\<open>AddChild\<close> allocates the next address. \<open>None\<close> is the null
  pointer.
\<close>

record 'a PolyPath =
  scale_' :: real
  parent_' :: "nat option"
  polygon :: "'a Point list"
  childs :: "nat list"

type_synonym 'a PolyTree = "'a PolyPath list"
type_synonym PolyTree64 = "int64 PolyTree"
type_synonym PolyTreeD = "real PolyTree"

text \<open>
  \<^verbatim>\<open>explicit PolyPath(int precision = 0)\<close>, for the root only:
  \<^verbatim>\<open>scale_ = std::pow(10, precision); parent_ = nullptr;\<close>
\<close>

definition PolyPath_root :: "int \<Rightarrow> 'a PolyTree" where
  "PolyPath_root precision =
     [\<lparr> scale_' = 10 powi precision, parent_' = None, polygon = [], childs = [] \<rparr>]"

text \<open>
  \<^verbatim>\<open>AddChild(path)\<close> on the node at address \<open>this\<close>:
  \<^verbatim>\<open>childs.push_back(new PolyPath<T>(this, path)); return childs.back();\<close> where the
  protected constructor sets \<^verbatim>\<open>scale_(parent->scale_), parent_(parent), polygon(path)\<close>.
  The result is the new store and the address of the child.
\<close>

definition AddChild :: "'a PolyTree \<Rightarrow> nat \<Rightarrow> 'a Point list \<Rightarrow> 'a PolyTree \<times> nat" where
  "AddChild h this path =
     (let child = length h;
          node = \<lparr> scale_' = scale_' (h ! this), parent_' = Some this, polygon = path,
                   childs = [] \<rparr>
      in (h[this := (h ! this)\<lparr> childs := childs (h ! this) @ [child] \<rparr>] @ [node], child))"

text \<open>
  \<^verbatim>\<open>Clear()\<close> deletes the children and empties \<^verbatim>\<open>childs\<close>. The store keeps the cells of
  the deleted nodes; nothing points to them any more.
\<close>

definition Clear :: "'a PolyTree \<Rightarrow> nat \<Rightarrow> 'a PolyTree" where
  "Clear h this = h[this := (h ! this)\<lparr> childs := [] \<rparr>]"

text \<open>
  \<^verbatim>\<open>IsHole()\<close>:
  \<^verbatim>\<open>const PolyPath* pp = parent_; bool is_hole = pp;
  while (pp) { is_hole = !is_hole; pp = pp->parent_; } return is_hole;\<close>
  The loop follows parent pointers, so on an arbitrary store it need not end: it is a
  partial function, and \<open>None\<close> is the result of a loop that runs forever. A pointer
  outside the store is the error \<open>DanglingPointer\<close>.
\<close>

partial_function (option) IsHole_loop ::
  "'a PolyTree \<Rightarrow> nat option \<Rightarrow> bool \<Rightarrow> (error + bool) option" where
  "IsHole_loop h pp is_hole =
     (case pp of
        None \<Rightarrow> Some (Inr is_hole)
      | Some p \<Rightarrow>
          if p < length h then IsHole_loop h (parent_' (h ! p)) (\<not> is_hole)
          else Some (Inl DanglingPointer))"

declare IsHole_loop.simps [code]

definition IsHole :: "'a PolyTree \<Rightarrow> nat \<Rightarrow> (error + bool) option" where
  "IsHole h this =
     (let pp = parent_' (h ! this); is_hole = (pp \<noteq> None) in IsHole_loop h pp is_hole)"

text \<open>
  The stores a program can build: a root, then any number of \<^verbatim>\<open>AddChild\<close> and
  \<^verbatim>\<open>Clear\<close> calls on nodes that exist. (The copy constructor and the assignment are
  deleted, and the constructor that takes a parent is protected and called by
  \<^verbatim>\<open>AddChild\<close> only.)
\<close>

inductive built :: "'a PolyTree \<Rightarrow> bool" where
  root: "built (PolyPath_root precision)"
| child: "built h \<Longrightarrow> this < length h \<Longrightarrow> built (fst (AddChild h this path))"
| clear: "built h \<Longrightarrow> this < length h \<Longrightarrow> built (Clear h this)"

text \<open>
  The depth of a node, in the words of the claim about \<^verbatim>\<open>IsHole\<close>: the root is at depth
  0, a child one below its parent.
\<close>

inductive depth_is :: "'a PolyTree \<Rightarrow> nat \<Rightarrow> nat \<Rightarrow> bool" for h where
  at_root: "n < length h \<Longrightarrow> parent_' (h ! n) = None \<Longrightarrow> depth_is h n 0"
| below: "n < length h \<Longrightarrow> parent_' (h ! n) = Some p \<Longrightarrow> depth_is h p d
          \<Longrightarrow> depth_is h n (Suc d)"

subsection \<open>ClipperD (clipper.engine.h)\<close>

text \<open>
  \<^verbatim>\<open>ClipperD\<close> derives from \<^verbatim>\<open>ClipperBase\<close> and calls its \<^verbatim>\<open>AddPaths\<close> and
  \<^verbatim>\<open>Execute\<close> overloads, the templates \<^verbatim>\<open>ScalePaths<int64_t, double>\<close> and
  \<^verbatim>\<open>ScalePaths<double, int64_t>\<close> of clipper.core.h, and \<^verbatim>\<open>Polytree64ToPolytreeD\<close>. The
  header declares them; their bodies are in files that are not modelled here. They are
  parameters of the model, collected in one record, and every statement about
  \<^verbatim>\<open>ClipperD\<close> holds for all of them. \<open>'b\<close> is the state of the base-class subobject. A
  reference parameter (\<^verbatim>\<open>Paths64& solution_closed\<close>) is passed in and returned.
\<close>

record 'b engine =
  AddPaths :: "'b \<Rightarrow> Paths64 \<Rightarrow> PathType \<Rightarrow> bool \<Rightarrow> 'b"
  Execute_closed :: "'b \<Rightarrow> ClipType \<Rightarrow> FillRule \<Rightarrow> Paths64 \<Rightarrow> bool \<times> 'b \<times> Paths64"
  Execute_closed_open ::
    "'b \<Rightarrow> ClipType \<Rightarrow> FillRule \<Rightarrow> Paths64 \<Rightarrow> Paths64 \<Rightarrow> bool \<times> 'b \<times> Paths64 \<times> Paths64"
  Execute_polytree ::
    "'b \<Rightarrow> ClipType \<Rightarrow> FillRule \<Rightarrow> PolyTree64 \<Rightarrow> Paths64 \<Rightarrow>
     bool \<times> 'b \<times> PolyTree64 \<times> Paths64"
  ScalePaths_int64 :: "PathsD \<Rightarrow> real \<Rightarrow> Paths64"
  ScalePaths_double :: "Paths64 \<Rightarrow> real \<Rightarrow> PathsD"
  Polytree64ToPolytreeD :: "PolyTree64 \<Rightarrow> PolyTreeD \<Rightarrow> PolyTreeD"

record 'b ClipperD =
  base :: 'b
  scale_' :: real

text \<open>
  \<^verbatim>\<open>explicit ClipperD(int precision = 0) : scale_(std::pow(10, precision)) {}\<close>; \<open>b\<close> is
  the default-constructed base.
\<close>

definition ClipperD_ctor :: "'b \<Rightarrow> int \<Rightarrow> 'b ClipperD" where
  "ClipperD_ctor b precision = \<lparr> base = b, scale_' = 10 powi precision \<rparr>"

definition AddSubject :: "'b engine \<Rightarrow> 'b ClipperD \<Rightarrow> PathsD \<Rightarrow> 'b ClipperD" where
  "AddSubject eng c subjects =
     c\<lparr> base := AddPaths eng (base c) (ScalePaths_int64 eng subjects (scale_' c)) Subject False \<rparr>"

definition AddOpenSubject :: "'b engine \<Rightarrow> 'b ClipperD \<Rightarrow> PathsD \<Rightarrow> 'b ClipperD" where
  "AddOpenSubject eng c open_subjects =
     c\<lparr> base := AddPaths eng (base c) (ScalePaths_int64 eng open_subjects (scale_' c))
                   Subject True \<rparr>"

definition AddClip :: "'b engine \<Rightarrow> 'b ClipperD \<Rightarrow> PathsD \<Rightarrow> 'b ClipperD" where
  "AddClip eng c clips =
     c\<lparr> base := AddPaths eng (base c) (ScalePaths_int64 eng clips (scale_' c)) Clip False \<rparr>"

text \<open>
  The three overloads of \<^verbatim>\<open>ClipperD::Execute\<close>. The result is the returned \<^verbatim>\<open>bool\<close>, the
  object and the reference parameters as the call leaves them. The first two run the
  engine on local, empty \<^verbatim>\<open>Paths64\<close> containers and return before any assignment when
  it fails; the third hands the caller's \<^verbatim>\<open>Paths64& open_paths\<close> to the engine itself.
\<close>

definition Execute ::
  "'b engine \<Rightarrow> 'b ClipperD \<Rightarrow> ClipType \<Rightarrow> FillRule \<Rightarrow> PathsD \<Rightarrow>
   bool \<times> 'b ClipperD \<times> PathsD" where
  "Execute eng c clip_type fill_rule closed_paths =
     (case Execute_closed eng (base c) clip_type fill_rule [] of
        (ok, b, closed_paths64) \<Rightarrow>
          if \<not> ok then (False, c\<lparr> base := b \<rparr>, closed_paths)
          else (True, c\<lparr> base := b \<rparr>, ScalePaths_double eng closed_paths64 (1 / scale_' c)))"

definition Execute_open ::
  "'b engine \<Rightarrow> 'b ClipperD \<Rightarrow> ClipType \<Rightarrow> FillRule \<Rightarrow> PathsD \<Rightarrow> PathsD \<Rightarrow>
   bool \<times> 'b ClipperD \<times> PathsD \<times> PathsD" where
  "Execute_open eng c clip_type fill_rule closed_paths open_paths =
     (case Execute_closed_open eng (base c) clip_type fill_rule [] [] of
        (ok, b, closed_paths64, open_paths64) \<Rightarrow>
          if \<not> ok then (False, c\<lparr> base := b \<rparr>, closed_paths, open_paths)
          else (True, c\<lparr> base := b \<rparr>,
                ScalePaths_double eng closed_paths64 (1 / scale_' c),
                ScalePaths_double eng open_paths64 (1 / scale_' c)))"

definition Execute_tree ::
  "'b engine \<Rightarrow> 'b ClipperD \<Rightarrow> ClipType \<Rightarrow> FillRule \<Rightarrow> PolyTreeD \<Rightarrow> Paths64 \<Rightarrow>
   bool \<times> 'b ClipperD \<times> PolyTreeD \<times> Paths64" where
  "Execute_tree eng c clip_type fill_rule polytree open_paths =
     (case Execute_polytree eng (base c) clip_type fill_rule (PolyPath_root 0) open_paths of
        (ok, b, tree_result, open_paths') \<Rightarrow>
          if \<not> ok then (False, c\<lparr> base := b \<rparr>, polytree, open_paths')
          else (True, c\<lparr> base := b \<rparr>,
                Polytree64ToPolytreeD eng tree_result polytree, open_paths'))"

text \<open>
  A stand-in for the engine, to run \<^verbatim>\<open>ClipperD\<close> on: it keeps no state, and its
  \<^verbatim>\<open>Execute\<close> overloads report failure after writing a partial result into the containers
  they were given.
\<close>

definition failing_engine :: "unit engine" where
  "failing_engine =
     \<lparr> AddPaths = (\<lambda>b paths polytype is_open. b),
       Execute_closed = (\<lambda>b ct fr solution_closed. (False, b, [[\<lparr> x = 5, y = 5 \<rparr>]])),
       Execute_closed_open = (\<lambda>b ct fr solution_closed solution_open.
          (False, b, [[\<lparr> x = 5, y = 5 \<rparr>]], [[\<lparr> x = 6, y = 6 \<rparr>]])),
       Execute_polytree = (\<lambda>b ct fr polytree open_paths.
          (False, b, polytree, [[\<lparr> x = 6, y = 6 \<rparr>]])),
       ScalePaths_int64 = (\<lambda>paths s. []),
       ScalePaths_double = (\<lambda>paths s. []),
       Polytree64ToPolytreeD = (\<lambda>polytree result. result) \<rparr>"

subsection \<open>BMH_Search (ClipFileSave.cpp)\<close>

text \<open>
  The haystack and the needle are byte strings; \<open>char\<close> is a byte. A pointer into the
  haystack (\<^verbatim>\<open>current\<close>, \<^verbatim>\<open>end\<close>, \<^verbatim>\<open>last_found\<close>) is its offset from \<^verbatim>\<open>haystack_\<close>;
  \<^verbatim>\<open>last_found\<close> is \<open>None\<close> while it is the null pointer, and its offset is an \<open>int\<close>,
  since the search forms \<^verbatim>\<open>current - needle_len_less1\<close>, which can lie before the buffer.
  The tables \<^verbatim>\<open>case_table\<close> and \<^verbatim>\<open>shift\<close> (256 entries of \<^verbatim>\<open>uint8_t\<close>) are functions on
  bytes.

  The three members that own a buffer (\<^verbatim>\<open>needle_\<close>, \<^verbatim>\<open>needle_ic_\<close>, \<^verbatim>\<open>haystack_\<close>) have
  no initialiser in the class and are not set by \<^verbatim>\<open>Init\<close>. Such a pointer is
  \<open>Indeterminate\<close> (never given a value), \<open>Nullptr\<close>, or \<open>Buffer xs\<close>, the address of an
  array that holds \<open>xs\<close>. Testing, deleting or dereferencing an indeterminate pointer is
  undefined behaviour: the error \<open>Uninitialised\<close>.
\<close>

datatype 'a pointer = Indeterminate | Nullptr | Buffer "'a list"

record BMH_Search =
  needle_len_' :: nat
  needle_len_less1 :: nat
  haystack_len :: nat
  shift :: "char \<Rightarrow> nat"
  jump_' :: nat
  needle_' :: "char pointer"
  needle_ic_' :: "char pointer"
  haystack_' :: "char pointer"
  current :: nat
  end' :: nat
  last_found :: "int option"
  case_sensitive_' :: bool

text \<open>
  The case-blind table that \<^verbatim>\<open>Init\<close> fills with three loops: identity below 0x61,
  \<^verbatim>\<open>c - 0x20\<close> from 0x61 to 0x7A, identity from 0x7B.
\<close>

definition case_table :: "char \<Rightarrow> char" where
  "case_table c =
     (let n = (of_char c :: nat) in
      if n < 0x61 then c else if n < 0x7B then char_of (n - 0x20) else c)"

text \<open>
  Subscripts. \<^verbatim>\<open>case_table[*current]\<close> and \<^verbatim>\<open>shift[*current]\<close> index a table of 256
  entries with a plain \<^verbatim>\<open>char\<close>. Plain \<^verbatim>\<open>char\<close> is signed on the x86 and x86-64 ABIs, so
  a byte from 0x80 is a negative subscript there: \<open>char_index\<close> is the value of the
  subscript and \<open>table_at\<close> the checked read. \<open>array_at\<close> is the checked read of an
  array, \<open>ptr_at\<close> the read \<^verbatim>\<open>p[k]\<close> through a pointer.
\<close>

definition char_index :: "char \<Rightarrow> int" where
  "char_index c =
     (if (of_char c :: nat) < 128 then int (of_char c) else int (of_char c) - 256)"

definition table_at :: "(char \<Rightarrow> 'a) \<Rightarrow> int \<Rightarrow> error + 'a" where
  "table_at t k = (if 0 \<le> k \<and> k < 256 then Inr (t (char_of (nat k))) else Inl OutOfBounds)"

definition array_at :: "'a list \<Rightarrow> int \<Rightarrow> error + 'a" where
  "array_at xs k =
     (if 0 \<le> k \<and> k < int (length xs) then Inr (xs ! nat k) else Inl OutOfBounds)"

definition ptr_at :: "'a pointer \<Rightarrow> int \<Rightarrow> error + 'a" where
  "ptr_at p k =
     (case p of
        Indeterminate \<Rightarrow> Inl Uninitialised
      | Nullptr \<Rightarrow> Inl NullPointer
      | Buffer xs \<Rightarrow> array_at xs k)"

text \<open>
  \<^verbatim>\<open>Init\<close> sets \<^verbatim>\<open>case_sensitive_\<close>, \<^verbatim>\<open>current\<close>, \<^verbatim>\<open>end\<close>, \<^verbatim>\<open>last_found\<close> and the case
  table. The members that it leaves alone, the three owning pointers among them, keep the
  value they had.
\<close>

definition Init :: "BMH_Search \<Rightarrow> BMH_Search" where
  "Init s = s\<lparr> case_sensitive_' := False, current := 0, end' := 0, last_found := None \<rparr>"

text \<open>
  \<^verbatim>\<open>ClearHaystack\<close>: \<^verbatim>\<open>if (haystack_) delete[] haystack_; haystack_ = nullptr;\<close> and
  \<^verbatim>\<open>ClearNeedle\<close>: \<^verbatim>\<open>if (needle_) delete[] needle_; if (needle_ic_) delete[] needle_ic_;
  needle_ = nullptr; needle_ic_ = nullptr;\<close> Both read the pointer before they write it.
\<close>

definition ClearHaystack :: "BMH_Search \<Rightarrow> error + BMH_Search" where
  "ClearHaystack s =
     (case haystack_' s of
        Indeterminate \<Rightarrow> Inl Uninitialised
      | Nullptr \<Rightarrow> Inr (s\<lparr> haystack_' := Nullptr \<rparr>)
      | Buffer xs \<Rightarrow> Inr (s\<lparr> haystack_' := Nullptr \<rparr>))"

definition ClearNeedle :: "BMH_Search \<Rightarrow> error + BMH_Search" where
  "ClearNeedle s =
     (case needle_' s of
        Indeterminate \<Rightarrow> Inl Uninitialised
      | Nullptr \<Rightarrow>
          (case needle_ic_' s of
             Indeterminate \<Rightarrow> Inl Uninitialised
           | Nullptr \<Rightarrow> Inr (s\<lparr> needle_' := Nullptr, needle_ic_' := Nullptr \<rparr>)
           | Buffer ys \<Rightarrow> Inr (s\<lparr> needle_' := Nullptr, needle_ic_' := Nullptr \<rparr>))
      | Buffer xs \<Rightarrow>
          (case needle_ic_' s of
             Indeterminate \<Rightarrow> Inl Uninitialised
           | Nullptr \<Rightarrow> Inr (s\<lparr> needle_' := Nullptr, needle_ic_' := Nullptr \<rparr>)
           | Buffer ys \<Rightarrow> Inr (s\<lparr> needle_' := Nullptr, needle_ic_' := Nullptr \<rparr>)))"

text \<open>
  \<^verbatim>\<open>SetHayStack\<close>, with the content of the stream as \<open>buffer\<close>: \<^verbatim>\<open>ClearHaystack();\<close>
  first, then the new buffer, \<^verbatim>\<open>current = haystack_; end = current + haystack_len;\<close>
\<close>

definition SetHayStack :: "BMH_Search \<Rightarrow> string \<Rightarrow> error + BMH_Search" where
  "SetHayStack s buffer =
     (case ClearHaystack s of
        Inl e \<Rightarrow> Inl e
      | Inr s \<Rightarrow>
          Inr (s\<lparr> haystack_len := length buffer, haystack_' := Buffer buffer, current := 0,
                 end' := 0 + length buffer \<rparr>))"

text \<open>
  \<^verbatim>\<open>SetNeedle\<close> starts with \<^verbatim>\<open>ClearNeedle();\<close>. The case-insensitive copy of the needle
  is then made by
  \<^verbatim>\<open>uint8_t* c = needle_ic_;
  for (uint8_t i = 0; i < needle_len_; ++i) *c = case_table[*c++];\<close>
  The right operand of the assignment reads \<^verbatim>\<open>*c\<close> and increments \<^verbatim>\<open>c\<close>; the left operand
  is \<^verbatim>\<open>*c\<close> again. Since C++17 the right operand of an assignment is sequenced before
  the left one (the rule of the standard's section on assignment operators), so the folded
  byte of cell \<open>c\<close> is stored into cell \<open>c + 1\<close>, and cell 0 keeps the byte of the
  needle as given. Before C++17 the two uses of \<^verbatim>\<open>c\<close> are unsequenced and the statement
  has undefined behaviour; the model follows C++17, the one standard that gives the
  statement a meaning. \<open>ic_loop\<close> is that loop. The buffer \<^verbatim>\<open>needle_ic_\<close> has
  \<^verbatim>\<open>needle_len_ + 1\<close> cells, of which \<^verbatim>\<open>memcpy\<close> fills the first \<^verbatim>\<open>needle_len_\<close>; the
  last cell is the one the last iteration writes. It is never read before that, and the
  model starts it as the byte 0.
\<close>

function ic_loop :: "nat \<Rightarrow> nat \<Rightarrow> nat \<Rightarrow> char list \<Rightarrow> char list" where
  "ic_loop i n c buf =
     (if i < n then ic_loop (i + 1) n (c + 1) (buf[c + 1 := case_table (buf ! c)]) else buf)"
  by pat_completeness auto
termination
  by (relation "measure (\<lambda>(i, n, c, buf). n - i)") auto

declare ic_loop.simps [simp del]

text \<open>
  The skip table: \<^verbatim>\<open>for (uint8_t j = 0; j < needle_len_less1; ++j)
  shift[needle_[j]] = needle_len_less1 - j;\<close> It is indexed by the bytes of \<^verbatim>\<open>needle_\<close>,
  the needle as given, not by those of \<^verbatim>\<open>needle_ic_\<close>.
\<close>

function shift_loop :: "nat \<Rightarrow> nat \<Rightarrow> char list \<Rightarrow> (char \<Rightarrow> nat) \<Rightarrow> (char \<Rightarrow> nat)" where
  "shift_loop j less1 ndl sh =
     (if j < less1 then shift_loop (j + 1) less1 ndl (sh(ndl ! j := less1 - j)) else sh)"
  by pat_completeness auto
termination
  by (relation "measure (\<lambda>(j, less1, ndl, sh). less1 - j)") auto

declare shift_loop.simps [simp del]

text \<open>
  The loop counters of \<^verbatim>\<open>SetNeedle\<close> and the entries of \<^verbatim>\<open>shift\<close> are \<^verbatim>\<open>uint8_t\<close>: with a
  needle of more than 255 bytes the first loop never ends and writes past the buffer.
  The model stops there with \<open>OutOfBounds\<close>; up to 255 bytes no counter wraps.
\<close>

definition SetNeedle :: "BMH_Search \<Rightarrow> string \<Rightarrow> error + BMH_Search" where
  "SetNeedle s ndl =
     (case ClearNeedle s of
        Inl e \<Rightarrow> Inl e
      | Inr s \<Rightarrow>
         (let n = length ndl in
          if n = 0 then Inr (s\<lparr> needle_len_' := 0 \<rparr>)
          else if 255 < n then Inl OutOfBounds
          else
            (let less1 = n - 1;
                 ic = ic_loop 0 n 0 (ndl @ [char_of (0 :: nat)]);
                 sh = shift_loop 0 less1 ndl (\<lambda>c. n);
                 jmp = sh (ndl ! less1)
             in Inr (s\<lparr> needle_len_' := n, needle_len_less1 := less1, needle_' := Buffer ndl,
                        needle_ic_' := Buffer ic, shift := sh(ndl ! less1 := 0),
                        jump_' := jmp \<rparr>))))"

text \<open>
  The storage of a \<^verbatim>\<open>BMH_Search\<close> object before its constructor runs. No member has an
  initialiser, and the constructors set none in their initialiser lists.
  \<^item> An object with automatic or dynamic storage duration starts with indeterminate members:
    \<open>indeterminate_storage\<close>. The constructors read the pointer \<^verbatim>\<open>haystack_\<close> of such
    an object before anything else and stop there, so the entries that the record gives
    to its other scalar members are never looked at.
  \<^item> An object with static storage duration is zero-initialised before its constructor
    runs: \<open>zeroed_storage\<close>, with null pointers and zero scalars.
\<close>

definition indeterminate_storage :: BMH_Search where
  "indeterminate_storage =
     \<lparr> needle_len_' = 0, needle_len_less1 = 0, haystack_len = 0, shift = (\<lambda>c. 0),
       jump_' = 0, needle_' = Indeterminate, needle_ic_' = Indeterminate,
       haystack_' = Indeterminate, current = 0, end' = 0, last_found = None,
       case_sensitive_' = False \<rparr>"

definition zeroed_storage :: BMH_Search where
  "zeroed_storage =
     \<lparr> needle_len_' = 0, needle_len_less1 = 0, haystack_len = 0, shift = (\<lambda>c. 0),
       jump_' = 0, needle_' = Nullptr, needle_ic_' = Nullptr, haystack_' = Nullptr,
       current = 0, end' = 0, last_found = None, case_sensitive_' = False \<rparr>"

text \<open>
  The constructor \<^verbatim>\<open>BMH_Search(std::ifstream& stream, const std::string& needle)\<close>, run on
  the storage of the object:
  \<^verbatim>\<open>Init(); SetHayStack(stream); if (needle.size() > 0) SetNeedle(needle);\<close> where
  \<open>stream\<close> is the content of the file. \<^verbatim>\<open>SetHayStack\<close> begins with \<^verbatim>\<open>ClearHaystack()\<close>,
  which tests \<^verbatim>\<open>haystack_\<close>: on indeterminate storage the constructor has undefined
  behaviour at this point, whatever the arguments. (The destructor, which releases the
  buffers of a constructed object, is not modelled.)
\<close>

definition BMH_Search_ctor :: "BMH_Search \<Rightarrow> string \<Rightarrow> string \<Rightarrow> error + BMH_Search" where
  "BMH_Search_ctor storage stream ndl =
     (case SetHayStack (Init storage) stream of
        Inl e \<Rightarrow> Inl e
      | Inr s \<Rightarrow> if 0 < length ndl then SetNeedle s ndl else Inr s)"

text \<open>
  The inner loops of the two searches:
  \<^verbatim>\<open>while (i < needle_len_less1 && needle_[i] == *(j + i)) ++i;\<close> and
  \<^verbatim>\<open>while (i < needle_len_less1 && needle_ic_[i] == case_table[*(j + i)]) ++i;\<close>
  with \<open>j\<close> the offset \<^verbatim>\<open>current - needle_len_less1\<close>. In the first loop \<^verbatim>\<open>needle_[i]\<close> is a
  \<^verbatim>\<open>uint8_t\<close> and \<^verbatim>\<open>*(j + i)\<close> a plain \<^verbatim>\<open>char\<close>: both are promoted to \<^verbatim>\<open>int\<close> before the
  comparison, so a byte from 0x80 in the haystack, a negative number, equals no byte of the
  needle. In the second loop both sides are \<^verbatim>\<open>uint8_t\<close>.
\<close>

function match_cs :: "BMH_Search \<Rightarrow> int \<Rightarrow> nat \<Rightarrow> error + nat" where
  "match_cs s j i =
     (if i < needle_len_less1 s then
        (case ptr_at (needle_' s) (int i) of
           Inl e \<Rightarrow> Inl e
         | Inr n \<Rightarrow>
            (case ptr_at (haystack_' s) (j + int i) of
               Inl e \<Rightarrow> Inl e
             | Inr h \<Rightarrow>
                 if int (of_char n) = char_index h then match_cs s j (i + 1) else Inr i))
      else Inr i)"
  by pat_completeness auto
termination
  by (relation "measure (\<lambda>(s, j, i). needle_len_less1 s - i)") auto

declare match_cs.simps [simp del]

function match_ic :: "BMH_Search \<Rightarrow> int \<Rightarrow> nat \<Rightarrow> error + nat" where
  "match_ic s j i =
     (if i < needle_len_less1 s then
        (case ptr_at (needle_ic_' s) (int i) of
           Inl e \<Rightarrow> Inl e
         | Inr n \<Rightarrow>
            (case ptr_at (haystack_' s) (j + int i) of
               Inl e \<Rightarrow> Inl e
             | Inr h \<Rightarrow>
                (case table_at case_table (char_index h) of
                   Inl e \<Rightarrow> Inl e
                 | Inr c \<Rightarrow> if n = c then match_ic s j (i + 1) else Inr i)))
      else Inr i)"
  by pat_completeness auto
termination
  by (relation "measure (\<lambda>(s, j, i). needle_len_less1 s - i)") auto

declare match_ic.simps [simp del]

text \<open>
  \<^verbatim>\<open>FindNext_CaseSensitive\<close> and \<^verbatim>\<open>FindNext_IgnoreCase\<close>. The result is the returned
  \<^verbatim>\<open>bool\<close> and the object. After a last byte that matches and a comparison that fails,
  the loop adds \<^verbatim>\<open>jump_\<close> to \<^verbatim>\<open>current\<close>; with \<^verbatim>\<open>jump_\<close> zero it would repeat the same
  iteration for ever, which is the error \<open>NoProgress\<close>. (\<^verbatim>\<open>SetNeedle\<close> never sets
  \<^verbatim>\<open>jump_\<close> to zero.)
\<close>

function FindNext_CaseSensitive :: "BMH_Search \<Rightarrow> error + bool \<times> BMH_Search" where
  "FindNext_CaseSensitive s =
     (if current s < end' s then
        (case ptr_at (haystack_' s) (int (current s)) of
           Inl e \<Rightarrow> Inl e
         | Inr h \<Rightarrow>
            (case table_at (shift s) (char_index h) of
               Inl e \<Rightarrow> Inl e
             | Inr i \<Rightarrow>
                 if i = 0 then
                   (let j = int (current s) - int (needle_len_less1 s) in
                    case match_cs s j i of
                      Inl e \<Rightarrow> Inl e
                    | Inr i' \<Rightarrow>
                        if i' = needle_len_less1 s then
                          Inr (True, s\<lparr> current := current s + 1, last_found := Some j \<rparr>)
                        else if jump_' s = 0 then Inl NoProgress
                        else FindNext_CaseSensitive (s\<lparr> current := current s + jump_' s \<rparr>))
                 else FindNext_CaseSensitive (s\<lparr> current := current s + i \<rparr>)))
      else Inr (False, s))"
  by pat_completeness auto
termination
  by (relation "measure (\<lambda>s. end' s - current s)") auto

declare FindNext_CaseSensitive.simps [simp del]

function FindNext_IgnoreCase :: "BMH_Search \<Rightarrow> error + bool \<times> BMH_Search" where
  "FindNext_IgnoreCase s =
     (if current s < end' s then
        (case ptr_at (haystack_' s) (int (current s)) of
           Inl e \<Rightarrow> Inl e
         | Inr h \<Rightarrow>
            (case table_at case_table (char_index h) of
               Inl e \<Rightarrow> Inl e
             | Inr c \<Rightarrow>
                (let i = shift s c in
                 if i = 0 then
                   (let j = int (current s) - int (needle_len_less1 s) in
                    case match_ic s j i of
                      Inl e \<Rightarrow> Inl e
                    | Inr i' \<Rightarrow>
                        if i' = needle_len_less1 s then
                          Inr (True, s\<lparr> current := current s + 1, last_found := Some j \<rparr>)
                        else if jump_' s = 0 then Inl NoProgress
                        else FindNext_IgnoreCase (s\<lparr> current := current s + jump_' s \<rparr>))
                 else FindNext_IgnoreCase (s\<lparr> current := current s + i \<rparr>))))
      else Inr (False, s))"
  by pat_completeness auto
termination
  by (relation "measure (\<lambda>s. end' s - current s)") auto

declare FindNext_IgnoreCase.simps [simp del]

definition FindNext :: "BMH_Search \<Rightarrow> error + bool \<times> BMH_Search" where
  "FindNext s =
     (if case_sensitive_' s then FindNext_CaseSensitive s else FindNext_IgnoreCase s)"

definition Reset :: "BMH_Search \<Rightarrow> BMH_Search" where
  "Reset s = s\<lparr> current := 0, last_found := None \<rparr>"

definition FindFirst :: "BMH_Search \<Rightarrow> error + bool \<times> BMH_Search" where
  "FindFirst s = FindNext (Reset s)"

definition LastFound :: "BMH_Search \<Rightarrow> int option" where
  "LastFound s = last_found s"

text \<open>
  \<^verbatim>\<open>FindNextEndLine\<close>: \<^verbatim>\<open>current = last_found + needle_len_;
  while (current < end && *current != char(13) && *current != char(10)) ++current;
  return current;\<close>
\<close>

function FindNextEndLine_loop :: "BMH_Search \<Rightarrow> error + BMH_Search" where
  "FindNextEndLine_loop s =
     (if current s < end' s then
        (case ptr_at (haystack_' s) (int (current s)) of
           Inl e \<Rightarrow> Inl e
         | Inr h \<Rightarrow>
             if h \<noteq> char_of (13 :: nat) \<and> h \<noteq> char_of (10 :: nat)
             then FindNextEndLine_loop (s\<lparr> current := current s + 1 \<rparr>)
             else Inr s)
      else Inr s)"
  by pat_completeness auto
termination
  by (relation "measure (\<lambda>s. end' s - current s)") auto

declare FindNextEndLine_loop.simps [simp del]

definition FindNextEndLine :: "BMH_Search \<Rightarrow> error + nat \<times> BMH_Search" where
  "FindNextEndLine s =
     (case last_found s of
        None \<Rightarrow> Inl NullPointer
      | Some lf \<Rightarrow>
          if lf + int (needle_len_' s) < 0 then Inl OutOfBounds
          else
            (case FindNextEndLine_loop (s\<lparr> current := nat (lf + int (needle_len_' s)) \<rparr>) of
               Inl e \<Rightarrow> Inl e
             | Inr s' \<Rightarrow> Inr (current s', s')))"

text \<open>
  A search that reports a match moves \<^verbatim>\<open>current\<close> forward and leaves \<^verbatim>\<open>end\<close> alone. The
  loops over \<open>FindNext\<close> below end for this reason.
\<close>

lemma FindNext_CaseSensitive_progress:
  "FindNext_CaseSensitive s = Inr (True, s') \<Longrightarrow>
     end' s' = end' s \<and> current s < current s' \<and> current s' \<le> end' s"
proof (induction s rule: FindNext_CaseSensitive.induct)
  case (1 s)
  show ?case
  proof (cases "current s < end' s")
    case False
    with "1.prems" show ?thesis by (subst (asm) FindNext_CaseSensitive.simps) simp
  next
    case lt: True
    from "1.prems" lt obtain h where h: "ptr_at (haystack_' s) (int (current s)) = Inr h"
      by (subst (asm) FindNext_CaseSensitive.simps) (auto split: sum.splits)
    from "1.prems" lt h obtain i where i: "table_at (shift s) (char_index h) = Inr i"
      by (subst (asm) FindNext_CaseSensitive.simps) (auto split: sum.splits)
    show ?thesis
    proof (cases "i = 0")
      case nz: False
      from "1.prems" lt h i nz
      have "FindNext_CaseSensitive (s\<lparr> current := current s + i \<rparr>) = Inr (True, s')"
        by (subst (asm) FindNext_CaseSensitive.simps) simp
      from "1.IH"(2)[OF lt h i nz this] nz show ?thesis by simp
    next
      case z: True
      from "1.prems" lt h i z obtain i' where
        i': "match_cs s (int (current s) - int (needle_len_less1 s)) i = Inr i'"
        by (subst (asm) FindNext_CaseSensitive.simps) (auto simp: Let_def split: sum.splits)
      show ?thesis
      proof (cases "i' = needle_len_less1 s")
        case True
        with "1.prems" lt h i z i' show ?thesis
          by (subst (asm) FindNext_CaseSensitive.simps) (auto simp: Let_def)
      next
        case ne: False
        with "1.prems" lt h i z i' have j: "jump_' s \<noteq> 0"
          by (subst (asm) FindNext_CaseSensitive.simps) (auto simp: Let_def split: if_splits)
        with "1.prems" lt h i z i' ne
        have "FindNext_CaseSensitive (s\<lparr> current := current s + jump_' s \<rparr>) = Inr (True, s')"
          by (subst (asm) FindNext_CaseSensitive.simps) (simp add: Let_def)
        from "1.IH"(1)[OF lt h i z refl i' ne j this] j show ?thesis by simp
      qed
    qed
  qed
qed

lemma FindNext_IgnoreCase_progress:
  "FindNext_IgnoreCase s = Inr (True, s') \<Longrightarrow>
     end' s' = end' s \<and> current s < current s' \<and> current s' \<le> end' s"
proof (induction s rule: FindNext_IgnoreCase.induct)
  case (1 s)
  show ?case
  proof (cases "current s < end' s")
    case False
    with "1.prems" show ?thesis by (subst (asm) FindNext_IgnoreCase.simps) simp
  next
    case lt: True
    from "1.prems" lt obtain h where h: "ptr_at (haystack_' s) (int (current s)) = Inr h"
      by (subst (asm) FindNext_IgnoreCase.simps) (auto split: sum.splits)
    from "1.prems" lt h obtain c where c: "table_at case_table (char_index h) = Inr c"
      by (subst (asm) FindNext_IgnoreCase.simps) (auto split: sum.splits)
    show ?thesis
    proof (cases "shift s c = 0")
      case nz: False
      from "1.prems" lt h c nz
      have "FindNext_IgnoreCase (s\<lparr> current := current s + shift s c \<rparr>) = Inr (True, s')"
        by (subst (asm) FindNext_IgnoreCase.simps) (simp add: Let_def)
      from "1.IH"(2)[OF lt h c refl nz this] nz show ?thesis by simp
    next
      case z: True
      from "1.prems" lt h c z obtain i' where
        i': "match_ic s (int (current s) - int (needle_len_less1 s)) (shift s c) = Inr i'"
        by (subst (asm) FindNext_IgnoreCase.simps) (auto simp: Let_def split: sum.splits)
      show ?thesis
      proof (cases "i' = needle_len_less1 s")
        case True
        with "1.prems" lt h c z i' show ?thesis
          by (subst (asm) FindNext_IgnoreCase.simps) (auto simp: Let_def)
      next
        case ne: False
        with "1.prems" lt h c z i' have j: "jump_' s \<noteq> 0"
          by (subst (asm) FindNext_IgnoreCase.simps) (auto simp: Let_def split: if_splits)
        with "1.prems" lt h c z i' ne
        have "FindNext_IgnoreCase (s\<lparr> current := current s + jump_' s \<rparr>) = Inr (True, s')"
          by (subst (asm) FindNext_IgnoreCase.simps) (simp add: Let_def)
        from "1.IH"(1)[OF lt h c refl z refl i' ne j this] j show ?thesis by simp
      qed
    qed
  qed
qed

lemma FindNext_progress:
  "FindNext s = Inr (True, s') \<Longrightarrow> end' s' - current s' < end' s - current s"
  using FindNext_IgnoreCase_progress[of s s'] FindNext_CaseSensitive_progress[of s s']
  by (auto simp: FindNext_def split: if_splits)

text \<open>\<^verbatim>\<open>while (bmh.FindNext()) ;\<close> as \<^verbatim>\<open>SaveTest\<close> runs it.\<close>

function FindNext_loop :: "BMH_Search \<Rightarrow> error + BMH_Search" where
  "FindNext_loop s =
     (case FindNext s of
        Inl e \<Rightarrow> Inl e
      | Inr (found, s') \<Rightarrow> if found then FindNext_loop s' else Inr s')"
  by pat_completeness auto
termination
  by (relation "measure (\<lambda>s. end' s - current s)") (auto dest: FindNext_progress)

declare FindNext_loop.simps [simp del]

text \<open>
  A \<^verbatim>\<open>FindFirst\<close> / \<^verbatim>\<open>FindNext\<close> sequence: a caller that constructs the search, in the
  given storage, on a haystack and a needle, calls \<^verbatim>\<open>FindFirst\<close>, then \<^verbatim>\<open>FindNext\<close>
  until it returns false, and notes \<^verbatim>\<open>LastFoundOffset()\<close> (the offset of \<^verbatim>\<open>last_found\<close>) after every call that
  returned true. \<open>FindAll\<close> is the list of the offsets in the order they are reported;
  \<open>FindAll_loop\<close> is the part of the sequence after \<^verbatim>\<open>FindFirst\<close>.
\<close>

function FindAll_loop :: "BMH_Search \<Rightarrow> error + int list" where
  "FindAll_loop s =
     (case FindNext s of
        Inl e \<Rightarrow> Inl e
      | Inr (found, s') \<Rightarrow>
          if found then
            (case LastFound s' of
               None \<Rightarrow> Inl NullPointer
             | Some offset \<Rightarrow>
                 (case FindAll_loop s' of Inl e \<Rightarrow> Inl e | Inr rest \<Rightarrow> Inr (offset # rest)))
          else Inr [])"
  by pat_completeness auto
termination
  by (relation "measure (\<lambda>s. end' s - current s)") (auto dest: FindNext_progress)

declare FindAll_loop.simps [simp del]

definition FindAll :: "BMH_Search \<Rightarrow> string \<Rightarrow> string \<Rightarrow> error + int list" where
  "FindAll storage hay ndl =
     (case BMH_Search_ctor storage hay ndl of
        Inl e \<Rightarrow> Inl e
      | Inr s \<Rightarrow>
         (case FindFirst s of
            Inl e \<Rightarrow> Inl e
          | Inr (found, s') \<Rightarrow>
              if found then
                (case LastFound s' of
                   None \<Rightarrow> Inl NullPointer
                 | Some offset \<Rightarrow>
                     (case FindAll_loop s' of
                        Inl e \<Rightarrow> Inl e
                      | Inr rest \<Rightarrow> Inr (offset # rest)))
              else Inr []))"

text \<open>
  The positions the description of the search promises: every offset at which the
  haystack equals the needle once the letters a to z are identified with A to Z, from left
  to right.
\<close>

definition occurrences_ic :: "string \<Rightarrow> string \<Rightarrow> int list" where
  "occurrences_ic hay ndl =
     map int (filter (\<lambda>i. map case_table (take (length ndl) (drop i hay)) = map case_table ndl)
                [0 ..< length hay + 1 - length ndl])"

subsection \<open>Output streams (ClipFileSave.cpp)\<close>

text \<open>
  A \<^verbatim>\<open>std::ostream\<close> is the string written so far; \<^verbatim>\<open>stream << v\<close> appends the text
  of \<open>v\<close>, and \<^verbatim>\<open>std::endl\<close> appends a line feed. \<open>show_int64\<close> is \<^verbatim>\<open>operator<<\<close> for
  \<^verbatim>\<open>int64_t\<close> with the stream's default flags: decimal digits, no padding, a minus
  sign before a negative number.
\<close>

definition endl :: string where
  "endl = ''\<newline>''"

function show_nat :: "nat \<Rightarrow> string" where
  "show_nat n =
     (if n < 10 then [char_of (48 + n)] else show_nat (n div 10) @ [char_of (48 + n mod 10)])"
  by pat_completeness auto
termination
  by (relation "measure (\<lambda>n. n)") auto

declare show_nat.simps [simp del]

definition show_int :: "int \<Rightarrow> string" where
  "show_int i = (if i < 0 then CHR ''-'' # show_nat (nat (- i)) else show_nat (nat i))"

definition show_int64 :: "int64 \<Rightarrow> string" where
  "show_int64 w = show_int (sint w)"

text \<open>
  \<^verbatim>\<open>PathsToStream\<close>. \<^verbatim>\<open>operator<<\<close> for \<^verbatim>\<open>Point64\<close> is defined in clipper.core.h; it is
  the parameter \<open>show_pt\<close>. \<open>PathToStream\<close> is the body of the outer loop for a path that
  is not empty: the inner loop writes every point but the last, each followed by a comma
  and a space, and the statement after it writes the last point and \<^verbatim>\<open>endl\<close>.
\<close>

fun PathToStream :: "(Point64 \<Rightarrow> string) \<Rightarrow> Path64 \<Rightarrow> string \<Rightarrow> string" where
  "PathToStream show_pt [] stream = stream"
| "PathToStream show_pt [pt] stream = stream @ show_pt pt @ endl"
| "PathToStream show_pt (pt # path) stream =
     PathToStream show_pt path (stream @ show_pt pt @ '', '')"

fun PathsToStream :: "(Point64 \<Rightarrow> string) \<Rightarrow> Paths64 \<Rightarrow> string \<Rightarrow> string" where
  "PathsToStream show_pt [] stream = stream"
| "PathsToStream show_pt (path # paths) stream =
     (if path = [] then PathsToStream show_pt paths stream
      else PathsToStream show_pt paths (PathToStream show_pt path stream))"

text \<open>
  A stand-in for \<^verbatim>\<open>operator<<\<close> on \<^verbatim>\<open>Point64\<close>, to run the writer on: the two
  coordinates with a comma between them.
\<close>

definition show_xy :: "Point64 \<Rightarrow> string" where
  "show_xy pt = show_int64 (x pt) @ '','' @ show_int64 (y pt)"

text \<open>The items of a list with a separator between neighbours, as the format describes a line.\<close>

fun join_with :: "string \<Rightarrow> string list \<Rightarrow> string" where
  "join_with sep [] = []"
| "join_with sep [s] = s"
| "join_with sep (s # ss) = s @ sep @ join_with sep ss"

subsection \<open>SaveTest (ClipFileSave.cpp)\<close>

text \<open>
  The file system is a map from file names to contents: reading a file gives its content,
  \<^verbatim>\<open>remove\<close> takes the name out of the map, and opening and writing a file always
  succeed. \<^verbatim>\<open>FileExists\<close> and \<^verbatim>\<open>GetInt\<close> are declared in ClipFileLoad.h and defined in
  a file that is not modelled here. \<open>FileExists\<close> is what its name says on this file
  system: the name has a content. \<^verbatim>\<open>GetInt(s_it, s_end, value)\<close> is the parameter
  \<open>GetInt\<close>, from the text between the iterators and the old \<^verbatim>\<open>value\<close> to the new one;
  every statement about \<^verbatim>\<open>SaveTest\<close> holds for all such functions.
\<close>

type_synonym filesystem = "string \<Rightarrow> string option"

definition FileExists :: "filesystem \<Rightarrow> string \<Rightarrow> bool" where
  "FileExists fs filename = (fs filename \<noteq> None)"

text \<open>The two \<^verbatim>\<open>switch\<close> statements of \<^verbatim>\<open>SaveTest\<close>.\<close>

definition cliptype_string :: "ClipType \<Rightarrow> string" where
  "cliptype_string ct =
     (case ct of
        None' \<Rightarrow> ''NONE''
      | Intersection \<Rightarrow> ''INTERSECTION''
      | Union \<Rightarrow> ''UNION''
      | Difference \<Rightarrow> ''DIFFERENCE''
      | Xor \<Rightarrow> ''XOR'')"

definition fillrule_string :: "FillRule \<Rightarrow> string" where
  "fillrule_string fr =
     (case fr of
        EvenOdd \<Rightarrow> ''EVENODD''
      | NonZero \<Rightarrow> ''NONZERO''
      | Positive \<Rightarrow> ''POSITIVE''
      | Negative \<Rightarrow> ''NEGATIVE'')"

text \<open>
  The block of \<^verbatim>\<open>SaveTest\<close> that reads the number of the preceding test, run on the
  content of the file:
  \<^verbatim>\<open>BMH_Search bmh = BMH_Search(file, "CAPTION:");
  while (bmh.FindNext()) ;
  if (bmh.LastFound()) {
    line.assign(bmh.LastFound()+8, bmh.FindNextEndLine());
    string::const_iterator s_it = line.cbegin(), s_end = line.cend();
    GetInt(s_it, s_end, last_text_no); }\<close>
  The result is \<^verbatim>\<open>last_text_no\<close>, which starts as 0. \<open>storage\<close> is the storage of the
  object \<^verbatim>\<open>bmh\<close>.
\<close>

definition get_last_text_no ::
  "BMH_Search \<Rightarrow> (string \<Rightarrow> int64 \<Rightarrow> int64) \<Rightarrow> string \<Rightarrow> error + int64" where
  "get_last_text_no storage GetInt file =
     (case BMH_Search_ctor storage file ''CAPTION:'' of
        Inl e \<Rightarrow> Inl e
      | Inr bmh \<Rightarrow>
         (case FindNext_loop bmh of
            Inl e \<Rightarrow> Inl e
          | Inr bmh \<Rightarrow>
             (case LastFound bmh of
                None \<Rightarrow> Inr 0
              | Some lf \<Rightarrow>
                 (case FindNextEndLine bmh of
                    Inl e \<Rightarrow> Inl e
                  | Inr (eol, bmh) \<Rightarrow>
                      if lf + 8 < 0 then Inl OutOfBounds
                      else
                        (case haystack_' bmh of
                           Indeterminate \<Rightarrow> Inl Uninitialised
                         | Nullptr \<Rightarrow> Inl NullPointer
                         | Buffer hay \<Rightarrow>
                             (let line = take (eol - nat (lf + 8)) (drop (nat (lf + 8)) hay)
                              in Inr (GetInt line 0)))))))"

text \<open>
  \<^verbatim>\<open>SaveTest\<close>. The pointers \<^verbatim>\<open>subj\<close>, \<^verbatim>\<open>subj_open\<close> and \<^verbatim>\<open>clip\<close> may be null. The result
  is the returned \<^verbatim>\<open>bool\<close> and the file system. \<open>source\<close> is the content of the output
  file: what the file held when it is opened with \<^verbatim>\<open>ios_base::app | ios_base::ate\<close>,
  nothing when it is opened without a mode. The search object \<^verbatim>\<open>bmh\<close> is a local
  variable of the block that reads the caption number: its storage is automatic, hence
  indeterminate when the constructor starts. \<^verbatim>\<open>last_text_no++\<close> is the addition of
  \<open>64 word\<close>, which wraps around where C++ leaves the overflow of \<^verbatim>\<open>int64_t\<close>
  undefined.
\<close>

definition SaveTest ::
  "(string \<Rightarrow> int64 \<Rightarrow> int64) \<Rightarrow> (Point64 \<Rightarrow> string) \<Rightarrow> filesystem \<Rightarrow> string \<Rightarrow> bool \<Rightarrow>
   Paths64 option \<Rightarrow> Paths64 option \<Rightarrow> Paths64 option \<Rightarrow> int64 \<Rightarrow> int64 \<Rightarrow>
   ClipType \<Rightarrow> FillRule \<Rightarrow> error + bool \<times> filesystem" where
  "SaveTest GetInt show_pt fs filename append' subj subj_open clip area count ct fr =
     (case
        (if append' \<and> FileExists fs filename then
           (case get_last_text_no indeterminate_storage GetInt (the (fs filename)) of
              Inl e \<Rightarrow> Inl e
            | Inr n \<Rightarrow> Inr (n, fs))
         else if FileExists fs filename then Inr (0, fs(filename := None))
         else Inr (0, fs))
      of
        Inl e \<Rightarrow> Inl e
      | Inr (last_text_no, fs) \<Rightarrow>
         (let last_text_no = last_text_no + 1;
              source = (if append' \<and> FileExists fs filename then the (fs filename) else []);
              source = source @ ''CAPTION: '' @ show_int64 last_text_no @ ''.'' @ endl;
              source = source @ ''CLIPTYPE: '' @ cliptype_string ct @ endl;
              source = source @ ''FILLRULE: '' @ fillrule_string fr @ endl;
              source = source @ ''SOL_AREA: '' @ show_int64 area @ endl;
              source = source @ ''SOL_COUNT: '' @ show_int64 count @ endl;
              source = (case subj of
                          None \<Rightarrow> source
                        | Some paths \<Rightarrow> PathsToStream show_pt paths (source @ ''SUBJECTS'' @ endl));
              source = (case subj_open of
                          None \<Rightarrow> source
                        | Some paths \<Rightarrow>
                            PathsToStream show_pt paths (source @ ''SUBJECTS_OPEN'' @ endl));
              source = (case clip of
                          None \<Rightarrow> source
                        | Some paths \<Rightarrow>
                            if length paths \<noteq> 0
                            then PathsToStream show_pt paths (source @ ''CLIPS'' @ endl)
                            else source);
              source = source @ endl
          in Inr (True, fs(filename \<mapsto> source))))"

text \<open>
  One test block as the file format lists it: the caption line, the clip type and the fill
  rule by their keywords, the two solution lines, the sections that are present, and an
  empty line.
\<close>

definition test_block ::
  "(Point64 \<Rightarrow> string) \<Rightarrow> int64 \<Rightarrow> Paths64 option \<Rightarrow> Paths64 option \<Rightarrow> Paths64 option \<Rightarrow>
   int64 \<Rightarrow> int64 \<Rightarrow> ClipType \<Rightarrow> FillRule \<Rightarrow> string" where
  "test_block show_pt n subj subj_open clip area count ct fr =
     ''CAPTION: '' @ show_int64 n @ ''.'' @ ''\<newline>''
     @ ''CLIPTYPE: ''
     @ (case ct of None' \<Rightarrow> ''NONE'' | Intersection \<Rightarrow> ''INTERSECTION'' | Union \<Rightarrow> ''UNION''
        | Difference \<Rightarrow> ''DIFFERENCE'' | Xor \<Rightarrow> ''XOR'') @ ''\<newline>''
     @ ''FILLRULE: ''
     @ (case fr of EvenOdd \<Rightarrow> ''EVENODD'' | NonZero \<Rightarrow> ''NONZERO'' | Positive \<Rightarrow> ''POSITIVE''
        | Negative \<Rightarrow> ''NEGATIVE'') @ ''\<newline>''
     @ ''SOL_AREA: '' @ show_int64 area @ ''\<newline>''
     @ ''SOL_COUNT: '' @ show_int64 count @ ''\<newline>''
     @ (case subj of
          None \<Rightarrow> []
        | Some paths \<Rightarrow> ''SUBJECTS'' @ ''\<newline>'' @ PathsToStream show_pt paths [])
     @ (case subj_open of
          None \<Rightarrow> []
        | Some paths \<Rightarrow> ''SUBJECTS_OPEN'' @ ''\<newline>'' @ PathsToStream show_pt paths [])
     @ (case clip of
          None \<Rightarrow> []
        | Some paths \<Rightarrow>
            if paths = [] then [] else ''CLIPS'' @ ''\<newline>'' @ PathsToStream show_pt paths [])
     @ ''\<newline>''"

subsection \<open>A notion used in the proofs\<close>

text \<open>The line that \<^verbatim>\<open>PathsToStream\<close> owes to one path.\<close>

definition line_of :: "(Point64 \<Rightarrow> string) \<Rightarrow> Path64 \<Rightarrow> string" where
  "line_of show_pt path =
     (if path = [] then [] else join_with '', '' (map show_pt path) @ endl)"

section \<open>Theorems\<close>

subsection \<open>The defaults of ClipperOffset and ClipperBase\<close>

text \<open>
  Claim C4. A \<^verbatim>\<open>ClipperOffset\<close> constructed with no arguments has \<^verbatim>\<open>MiterLimit()\<close> equal
  to 2.0, \<^verbatim>\<open>ArcTolerance()\<close> equal to 0.0, \<^verbatim>\<open>MergeGroups()\<close> true and
  \<^verbatim>\<open>PreserveCollinear()\<close> false.
\<close>

theorem ClipperOffset_defaults:
  "MiterLimit ClipperOffset_default = 2.0
   \<and> ArcTolerance ClipperOffset_default = 0.0
   \<and> MergeGroups ClipperOffset_default = True
   \<and> ClipperOffset_PreserveCollinear ClipperOffset_default = False"
  by (simp add: ClipperOffset_default_def ClipperOffset_ctor_def MiterLimit_def
      ArcTolerance_def MergeGroups_def ClipperOffset_PreserveCollinear_def)

text \<open>
  Claim C10. A freshly constructed clipping engine has its public \<^verbatim>\<open>PreserveCollinear\<close>
  flag set to true, whereas a freshly constructed \<^verbatim>\<open>ClipperOffset\<close> reports
  \<^verbatim>\<open>PreserveCollinear()\<close> false: the two defaults differ.
\<close>

theorem PreserveCollinear_defaults_differ:
  "PreserveCollinear ClipperBase_ctor = True
   \<and> ClipperOffset_PreserveCollinear ClipperOffset_default = False
   \<and> PreserveCollinear ClipperBase_ctor
        \<noteq> ClipperOffset_PreserveCollinear ClipperOffset_default"
  by (simp add: ClipperBase_ctor_def ClipperOffset_default_def ClipperOffset_ctor_def
      ClipperOffset_PreserveCollinear_def)

subsection \<open>ClipperD: a failed Execute\<close>

text \<open>
  Claim C1 says that the output containers are empty when \<^verbatim>\<open>ClipperD::Execute\<close> returns
  false. The two overloads that return paths do not touch the caller's containers on that
  path: they return before the assignments. What holds is that the containers are then
  exactly what the caller passed, whatever the engine wrote into the local ones.

  Claim C1, as amended. When \<^verbatim>\<open>ClipperD::Execute\<close> (either of the overloads that return
  paths) returns false, \<^verbatim>\<open>closed_paths\<close> and \<^verbatim>\<open>open_paths\<close> are left exactly as the
  caller passed them: nothing the engine produced is copied out.
\<close>

theorem Execute_failed_unchanged:
  "(fst (Execute eng c ct fr closed_paths) = False \<longrightarrow>
      snd (snd (Execute eng c ct fr closed_paths)) = closed_paths)
   \<and> (fst (Execute_open eng c ct fr closed_paths open_paths) = False \<longrightarrow>
      snd (snd (Execute_open eng c ct fr closed_paths open_paths)) = (closed_paths, open_paths))"
  by (auto simp: Execute_def Execute_open_def split: prod.splits)

text \<open>
  The amended statement at an engine that fails, called with empty containers: both
  overloads return false and the containers are still empty.
\<close>

theorem Execute_failed_unchanged_witness:
  "fst (Execute failing_engine (ClipperD_ctor () 2) Intersection EvenOdd []) = False
   \<and> snd (snd (Execute failing_engine (ClipperD_ctor () 2) Intersection EvenOdd [])) = []
   \<and> fst (Execute_open failing_engine (ClipperD_ctor () 2) Xor NonZero [] []) = False
   \<and> snd (snd (Execute_open failing_engine (ClipperD_ctor () 2) Xor NonZero [] [])) = ([], [])"
  using Execute_failed_unchanged[of failing_engine "ClipperD_ctor () 2" Intersection EvenOdd
      "[]" "[]"]
    Execute_failed_unchanged[of failing_engine "ClipperD_ctor () 2" Xor NonZero "[]" "[]"]
  by (simp add: Execute_def Execute_open_def failing_engine_def ClipperD_ctor_def)

text \<open>
  The claim as stated fails: the same engine, called with a container that holds one path,
  returns false and the container is not empty.
\<close>

theorem Execute_failed_not_empty:
  "fst (Execute failing_engine (ClipperD_ctor () 2) Intersection EvenOdd
          [[\<lparr> x = 1, y = 1 \<rparr>]]) = False
   \<and> snd (snd (Execute failing_engine (ClipperD_ctor () 2) Intersection EvenOdd
          [[\<lparr> x = 1, y = 1 \<rparr>]])) \<noteq> []"
  by (simp add: Execute_def failing_engine_def ClipperD_ctor_def)

subsection \<open>ClipperD: scaling in and out\<close>

text \<open>
  Claim C3 says that every coordinate handed to the engine is scaled by \<open>10\<^sup>p\<close> and every
  coordinate of the engine's output is scaled by \<open>10\<^sup>-\<^sup>p\<close> before a successful
  \<^verbatim>\<open>Execute\<close> returns it. The three \<^verbatim>\<open>Add\<close> functions and the two overloads that return
  paths do so (the factor out is the reciprocal of the factor in). The overload that
  returns a tree takes \<^verbatim>\<open>Paths64& open_paths\<close>, hands it to the engine and returns it as
  the engine left it: its open paths come back in the engine's integer coordinates, whatever
  the precision.

  What the code does, for every engine: the first line is the tree overload, the others
  are the parts of the claim that hold.
\<close>

theorem Execute_tree_open_paths_unscaled:
  "snd (snd (snd (Execute_tree eng c ct fr polytree open_paths)))
     = snd (snd (snd (Execute_polytree eng (base c) ct fr (PolyPath_root 0) open_paths)))
   \<and> Execute_open eng c ct fr closed_paths open_pathsD
     = (case Execute_closed_open eng (base c) ct fr [] [] of
          (ok, b, closed64, open64) \<Rightarrow>
            if ok then (True, c\<lparr> base := b \<rparr>, ScalePaths_double eng closed64 (1 / scale_' c),
                        ScalePaths_double eng open64 (1 / scale_' c))
            else (False, c\<lparr> base := b \<rparr>, closed_paths, open_pathsD))
   \<and> base (AddSubject eng (ClipperD_ctor b0 p) paths)
     = AddPaths eng b0 (ScalePaths_int64 eng paths (10 powi p)) Subject False
   \<and> base (AddOpenSubject eng (ClipperD_ctor b0 p) paths)
     = AddPaths eng b0 (ScalePaths_int64 eng paths (10 powi p)) Subject True
   \<and> base (AddClip eng (ClipperD_ctor b0 p) paths)
     = AddPaths eng b0 (ScalePaths_int64 eng paths (10 powi p)) Clip False
   \<and> scale_' (ClipperD_ctor b0 p) = 10 powi p"
  by (auto simp: Execute_tree_def Execute_open_def AddSubject_def AddOpenSubject_def
      AddClip_def ClipperD_ctor_def split: prod.splits)

subsection \<open>PolyPath: IsHole\<close>

lemma built_parent_less:
  "built h \<Longrightarrow> n < length h \<Longrightarrow> parent_' (h ! n) = Some p \<Longrightarrow> p < n"
proof (induction arbitrary: n p rule: built.induct)
  case (root precision)
  then show ?case by (simp add: PolyPath_root_def)
next
  case (child h this path)
  show ?case
  proof (cases "n < length h")
    case True
    with child.prems have "parent_' (h ! n) = Some p"
      by (cases "n = this") (auto simp: AddChild_def Let_def nth_append nth_list_update)
    with child.IH True show ?thesis by blast
  next
    case False
    with child.prems have "n = length h" by (simp add: AddChild_def Let_def)
    with child.prems child.hyps show ?thesis
      by (simp add: AddChild_def Let_def nth_append)
  qed
next
  case (clear h this)
  from clear.prems have "n < length h" by (simp add: Clear_def)
  moreover from clear.prems this have "parent_' (h ! n) = Some p"
    by (cases "n = this") (auto simp: Clear_def nth_list_update)
  ultimately show ?case using clear.IH by blast
qed

lemma IsHole_loop_null: "IsHole_loop h None b = Some (Inr b)"
  by (subst IsHole_loop.simps) simp

lemma IsHole_loop_step:
  "p < length h \<Longrightarrow> IsHole_loop h (Some p) b = IsHole_loop h (parent_' (h ! p)) (\<not> b)"
  by (subst IsHole_loop.simps) simp

lemma depth_is_unique: "depth_is h n d \<Longrightarrow> depth_is h n d' \<Longrightarrow> d = d'"
proof (induction arbitrary: d' rule: depth_is.induct)
  case (at_root n)
  from at_root.prems show ?case
  proof (cases rule: depth_is.cases)
    case at_root
    then show ?thesis by simp
  next
    case (below q e)
    with at_root.hyps show ?thesis by simp
  qed
next
  case (below n p d)
  from below.prems show ?case
  proof (cases rule: depth_is.cases)
    case at_root
    with below.hyps show ?thesis by simp
  next
    case (below q e)
    with below.hyps have "depth_is h p e" by simp
    then have "d = e" by (rule below.IH)
    with below show ?thesis by simp
  qed
qed

text \<open>
  From a node at depth \<open>d\<close> the loop runs \<open>d + 1\<close> times and ends: the parent of a node
  of a built store has a smaller address.
\<close>

lemma IsHole_loop_built:
  assumes "built h"
  shows "p < length h \<Longrightarrow>
    \<exists>d. depth_is h p d \<and> IsHole_loop h (Some p) b = Some (Inr (if even d then \<not> b else b))"
proof (induction p arbitrary: b rule: less_induct)
  case (less p)
  show ?case
  proof (cases "parent_' (h ! p)")
    case None
    then have "depth_is h p 0" using less.prems by (rule_tac depth_is.at_root)
    moreover have "IsHole_loop h (Some p) b = Some (Inr (\<not> b))"
      using None less.prems by (simp add: IsHole_loop_step IsHole_loop_null)
    ultimately show ?thesis by (intro exI[of _ 0]) simp
  next
    case (Some q)
    with assms less.prems have q: "q < p" by (rule_tac built_parent_less)
    with less.prems have ql: "q < length h" by simp
    from less.IH[OF q ql, of "\<not> b"] obtain d where
      d: "depth_is h q d"
        "IsHole_loop h (Some q) (\<not> b) = Some (Inr (if even d then \<not> \<not> b else \<not> b))"
      by blast
    have "depth_is h p (Suc d)" using less.prems Some d(1) by (rule depth_is.below)
    moreover have "IsHole_loop h (Some p) b = IsHole_loop h (Some q) (\<not> b)"
      using Some less.prems by (simp add: IsHole_loop_step)
    ultimately show ?thesis using d(2) by (intro exI[of _ "Suc d"]) simp
  qed
qed

lemma IsHole_built:
  assumes "built h" and "n < length h"
  shows "\<exists>d. depth_is h n d \<and> IsHole h n = Some (Inr (even d \<and> 2 \<le> d))"
proof (cases "parent_' (h ! n)")
  case None
  then have "depth_is h n 0" using assms(2) by (rule_tac depth_is.at_root)
  moreover have "IsHole h n = Some (Inr False)"
    using None by (simp add: IsHole_def IsHole_loop_null)
  ultimately show ?thesis by (intro exI[of _ 0]) simp
next
  case (Some p)
  with assms have "p < n" by (rule_tac built_parent_less)
  with assms(2) have pl: "p < length h" by simp
  from IsHole_loop_built[OF assms(1) pl, of True] obtain d where
    d: "depth_is h p d"
      "IsHole_loop h (Some p) True = Some (Inr (if even d then \<not> True else True))"
    by blast
  have "depth_is h n (Suc d)" using assms(2) Some d(1) by (rule depth_is.below)
  moreover have "IsHole h n = Some (Inr (odd d))"
    using Some d(2) by (simp add: IsHole_def)
  moreover have "odd d = (even (Suc d) \<and> 2 \<le> Suc d)" by (cases d) auto
  ultimately have
    "depth_is h n (Suc d) \<and> IsHole h n = Some (Inr (even (Suc d) \<and> 2 \<le> Suc d))"
    by (simp only:)
  then show ?thesis by (rule exI)
qed

text \<open>
  Claim C5. For every node of a tree that was built from a root by calls of \<^verbatim>\<open>AddChild\<close>
  (and \<^verbatim>\<open>Clear\<close>), \<^verbatim>\<open>IsHole()\<close> returns, and
  \<^item> its value is true exactly when the depth of the node is even and at least 2;
  \<^item> it is false for the root;
  \<^item> it is false for a child of the root;
  \<^item> for a deeper node it is the negation of the value for its parent.
\<close>

theorem IsHole_depth:
  assumes "built h" and "n < length h"
  shows "(\<exists>d. depth_is h n d \<and> IsHole h n = Some (Inr (even d \<and> 2 \<le> d)))
    \<and> (parent_' (h ! n) = None \<longrightarrow> IsHole h n = Some (Inr False))
    \<and> (\<forall>p. parent_' (h ! n) = Some p \<and> parent_' (h ! p) = None
          \<longrightarrow> IsHole h n = Some (Inr False))
    \<and> (\<forall>p q. parent_' (h ! n) = Some p \<and> parent_' (h ! p) = Some q \<longrightarrow>
          (\<exists>b. IsHole h p = Some (Inr b) \<and> IsHole h n = Some (Inr (\<not> b))))"
proof -
  from IsHole_built[OF assms] obtain d where
    d: "depth_is h n d" "IsHole h n = Some (Inr (even d \<and> 2 \<le> d))" by blast
  have root: "IsHole h n = Some (Inr False)" if "parent_' (h ! n) = None"
  proof -
    from assms(2) that have "depth_is h n 0" by (rule depth_is.at_root)
    with d(1) have "d = 0" by (rule depth_is_unique)
    with d(2) show ?thesis by simp
  qed
  have parent_depth: "p < length h \<and> (\<forall>e. depth_is h p e \<longrightarrow> d = Suc e)"
    if "parent_' (h ! n) = Some p" for p
  proof -
    from assms that have "p < n" by (rule built_parent_less)
    with assms(2) have "p < length h" by simp
    moreover have "d = Suc e" if "depth_is h p e" for e
    proof -
      from assms(2) \<open>parent_' (h ! n) = Some p\<close> that have "depth_is h n (Suc e)"
        by (rule depth_is.below)
      with d(1) show ?thesis by (rule depth_is_unique)
    qed
    ultimately show ?thesis by blast
  qed
  have top: "IsHole h n = Some (Inr False)"
    if "parent_' (h ! n) = Some p" and "parent_' (h ! p) = None" for p
  proof -
    from parent_depth[OF that(1)] have pl: "p < length h"
      and pd: "\<And>e. depth_is h p e \<Longrightarrow> d = Suc e" by blast+
    from pl that(2) have "depth_is h p 0" by (rule depth_is.at_root)
    then have "d = Suc 0" by (rule pd)
    with d(2) show ?thesis by simp
  qed
  have deeper: "\<exists>b. IsHole h p = Some (Inr b) \<and> IsHole h n = Some (Inr (\<not> b))"
    if "parent_' (h ! n) = Some p" and "parent_' (h ! p) = Some q" for p q
  proof -
    from parent_depth[OF that(1)] have pl: "p < length h"
      and pd: "\<And>e. depth_is h p e \<Longrightarrow> d = Suc e" by blast+
    from IsHole_built[OF assms(1) pl] obtain e where
      e: "depth_is h p e" "IsHole h p = Some (Inr (even e \<and> 2 \<le> e))" by blast
    from e(1) that(2) obtain e' where e': "e = Suc e'"
      by (cases rule: depth_is.cases) auto
    from pd[OF e(1)] have "d = Suc e" .
    with d(2) e' have "IsHole h n = Some (Inr (\<not> (even e \<and> 2 \<le> e)))"
      by (cases e') auto
    with e(2) show ?thesis by blast
  qed
  from d root top deeper show ?thesis by blast
qed

text \<open>
  A tree with one node on each of the depths 0 to 3: the node at depth 2 is a hole, the
  others are not.
\<close>

theorem IsHole_depth_witness:
  "built (fst (AddChild (fst (AddChild (fst (AddChild (PolyPath_root 0 :: PolyTree64) 0 []))
                                 1 [])) 2 []))
   \<and> (\<exists>d. depth_is (fst (AddChild (fst (AddChild (fst (AddChild (PolyPath_root 0 :: PolyTree64)
                                                       0 [])) 1 [])) 2 [])) 2 d
           \<and> d = 2)
   \<and> IsHole (fst (AddChild (fst (AddChild (fst (AddChild (PolyPath_root 0 :: PolyTree64) 0 []))
                                 1 [])) 2 [])) 2 = Some (Inr True)
   \<and> map (IsHole (fst (AddChild (fst (AddChild (fst
           (AddChild (PolyPath_root 0 :: PolyTree64) 0 [])) 1 [])) 2 []))) [0, 1, 3]
       = [Some (Inr False), Some (Inr False), Some (Inr False)]"
proof -
  define t :: PolyTree64 where
    "t = fst (AddChild (fst (AddChild (fst (AddChild (PolyPath_root 0) 0 [])) 1 [])) 2 [])"
  have b: "built t"
    unfolding t_def
    by (intro built.child built.root) (simp_all add: AddChild_def PolyPath_root_def Let_def)
  have len: "length t = 4"
    by (simp add: t_def AddChild_def PolyPath_root_def Let_def)
  then have l: "2 < length t" by simp
  have v: "IsHole t 2 = Some (Inr True)"
    unfolding t_def by code_simp
  have w: "map (IsHole t) [0, 1, 3] = [Some (Inr False), Some (Inr False), Some (Inr False)]"
    unfolding t_def by code_simp
  from IsHole_depth[OF b l] obtain d where
    d: "depth_is t 2 d" "IsHole t 2 = Some (Inr (even d \<and> 2 \<le> d))" by blast
  have p2: "parent_' (t ! 2) = Some 1" and p1: "parent_' (t ! 1) = Some 0"
    and p0: "parent_' (t ! 0) = None"
    by (simp_all add: t_def AddChild_def PolyPath_root_def Let_def nth_append)
  have "depth_is t 0 0" using p0 len by (intro depth_is.at_root) simp_all
  then have "depth_is t 1 (Suc 0)" using p1 len by (intro depth_is.below[of 1 t 0]) simp_all
  then have "depth_is t 2 (Suc (Suc 0))"
    using p2 len by (intro depth_is.below[of 2 t 1]) simp_all
  with d(1) have "d = 2" using depth_is_unique by fastforce
  with b d v w show ?thesis unfolding t_def by blast
qed

subsection \<open>PathsToStream\<close>

lemma PathToStream_join:
  "path \<noteq> [] \<Longrightarrow>
     PathToStream show_pt path stream = stream @ join_with '', '' (map show_pt path) @ endl"
  by (induction show_pt path stream rule: PathToStream.induct) simp_all

lemma PathsToStream_concat:
  "PathsToStream show_pt paths stream = stream @ concat (map (line_of show_pt) paths)"
  by (induction paths arbitrary: stream) (simp_all add: line_of_def PathToStream_join)

lemma join_with_notin:
  "\<forall>s \<in> set ss. c \<notin> set s \<Longrightarrow> c \<notin> set sep \<Longrightarrow> c \<notin> set (join_with sep ss)"
  by (induction sep ss rule: join_with.induct) auto

lemma count_list_notin: "c \<notin> set xs \<Longrightarrow> count_list xs c = 0"
  by (induction xs) auto

lemma count_line_of:
  assumes "\<forall>pt. CHR ''\<newline>'' \<notin> set (show_pt pt)"
  shows "count_list (line_of show_pt path) CHR ''\<newline>'' = (if path = [] then 0 else 1)"
proof -
  have "CHR ''\<newline>'' \<notin> set (join_with '', '' (map show_pt path))"
    using assms by (intro join_with_notin) auto
  then show ?thesis
    by (simp add: line_of_def endl_def count_list_notin)
qed

lemma count_lines:
  assumes "\<forall>pt. CHR ''\<newline>'' \<notin> set (show_pt pt)"
  shows "count_list (concat (map (line_of show_pt) paths)) CHR ''\<newline>''
         = length (filter (\<lambda>path. path \<noteq> []) paths)"
  by (induction paths) (simp_all add: count_line_of[OF assms])

text \<open>
  Claim C8. For every list of paths, \<^verbatim>\<open>PathsToStream\<close> appends to the stream, path by
  path in order, nothing for an empty path and, for a path that is not empty, its points
  separated by a comma and a space, with no separator after the last point, and a line
  feed. When the text of a point holds no line feed, the output has exactly one line for
  each path that is not empty.
\<close>

theorem PathsToStream_lines:
  "PathsToStream show_pt paths stream
     = stream @ concat (map (\<lambda>path. if path = [] then []
                               else join_with '', '' (map show_pt path) @ ''\<newline>'') paths)
   \<and> ((\<forall>pt. CHR ''\<newline>'' \<notin> set (show_pt pt)) \<longrightarrow>
        count_list (PathsToStream show_pt paths []) CHR ''\<newline>''
          = length (filter (\<lambda>path. path \<noteq> []) paths))"
proof -
  have "line_of show_pt = (\<lambda>path. if path = [] then []
                               else join_with '', '' (map show_pt path) @ ''\<newline>'')"
    by (rule ext) (simp add: line_of_def endl_def)
  then show ?thesis
    using PathsToStream_concat[of show_pt paths] count_lines[of show_pt paths]
    by (simp del: append_assoc)
qed

lemma digit_not_newline: "k < 10 \<Longrightarrow> char_of (48 + k :: nat) \<noteq> CHR ''\<newline>''"
proof
  assume k: "k < 10" and "char_of (48 + k) = CHR ''\<newline>''"
  then have "of_char (char_of (48 + k)) = (of_char CHR ''\<newline>'' :: nat)" by simp
  with k show False by simp
qed

lemma show_nat_no_newline: "CHR ''\<newline>'' \<notin> set (show_nat n)"
proof (induction n rule: show_nat.induct)
  case (1 n)
  show ?case
  proof (cases "n < 10")
    case True
    then show ?thesis using digit_not_newline[of n] by (subst show_nat.simps) auto
  next
    case False
    moreover have "n mod 10 < 10" by simp
    ultimately show ?thesis
      using "1.IH" digit_not_newline[of "n mod 10"] by (subst show_nat.simps) auto
  qed
qed

lemma show_xy_no_newline: "CHR ''\<newline>'' \<notin> set (show_xy pt)"
  by (simp add: show_xy_def show_int64_def show_int_def show_nat_no_newline)

text \<open>
  Three paths, the second one empty: two lines, the first with two points and one
  separator.
\<close>

theorem PathsToStream_lines_witness:
  "(\<forall>pt. CHR ''\<newline>'' \<notin> set (show_xy pt))
   \<and> PathsToStream show_xy
        [[\<lparr> x = 0, y = 0 \<rparr>, \<lparr> x = 10, y = - 5 \<rparr>], [], [\<lparr> x = 7, y = 7 \<rparr>]] ''SUBJECTS\<newline>''
       = ''SUBJECTS\<newline>0,0, 10,-5\<newline>7,7\<newline>''
   \<and> count_list (PathsToStream show_xy
        [[\<lparr> x = 0, y = 0 \<rparr>, \<lparr> x = 10, y = - 5 \<rparr>], [], [\<lparr> x = 7, y = 7 \<rparr>]] [])
        CHR ''\<newline>'' = 2"
proof -
  have e: "concat (map (\<lambda>path. if path = [] then []
                               else join_with '', '' (map show_xy path) @ ''\<newline>'')
             [[\<lparr> x = 0, y = 0 \<rparr>, \<lparr> x = 10, y = - 5 \<rparr>], [], [\<lparr> x = 7, y = 7 \<rparr>]])
           = ''0,0, 10,-5\<newline>7,7\<newline>''"
    by code_simp
  from PathsToStream_lines[of show_xy
      "[[\<lparr> x = 0, y = 0 \<rparr>, \<lparr> x = 10, y = - 5 \<rparr>], [], [\<lparr> x = 7, y = 7 \<rparr>]]" "''SUBJECTS\<newline>''"]
    PathsToStream_lines[of show_xy
      "[[\<lparr> x = 0, y = 0 \<rparr>, \<lparr> x = 10, y = - 5 \<rparr>], [], [\<lparr> x = 7, y = 7 \<rparr>]]" "[]"]
    show_xy_no_newline e
  show ?thesis by simp
qed

subsection \<open>BMH_Search: construction\<close>

text \<open>
  On indeterminate storage the constructor stops at its first \<^verbatim>\<open>ClearHaystack()\<close>, for
  every content of the stream and every needle; so does everything that begins with the
  construction of such an object.
\<close>

lemma BMH_Search_ctor_indeterminate:
  "BMH_Search_ctor indeterminate_storage stream ndl = Inl Uninitialised"
  by (simp add: BMH_Search_ctor_def SetHayStack_def ClearHaystack_def Init_def
      indeterminate_storage_def)

lemma get_last_text_no_indeterminate:
  "get_last_text_no indeterminate_storage GetInt content = Inl Uninitialised"
  by (simp add: get_last_text_no_def BMH_Search_ctor_indeterminate)

subsection \<open>SaveTest: the block it writes\<close>

text \<open>
  Claim C6 says that every call of \<^verbatim>\<open>SaveTest\<close> writes one test block: the line
  \<^verbatim>\<open>CAPTION: <n>.\<close>, the \<^verbatim>\<open>CLIPTYPE:\<close> line with the keyword NONE, INTERSECTION, UNION,
  DIFFERENCE or XOR of the clip type, the \<^verbatim>\<open>FILLRULE:\<close> line with the keyword EVENODD,
  NONZERO, POSITIVE or NEGATIVE of the fill rule, the \<^verbatim>\<open>SOL_AREA:\<close> and \<^verbatim>\<open>SOL_COUNT:\<close>
  lines, the sections SUBJECTS, SUBJECTS_OPEN and CLIPS that are present, and a blank
  line, in this order.

  What the code does, for every call. A call that does not append to an existing file
  returns true and leaves the file holding exactly that block, with caption 1. A call that
  appends to an existing file first constructs a \<^verbatim>\<open>BMH_Search\<close> in automatic storage,
  whose constructor tests and deletes pointers that were never given a value: the
  behaviour is undefined before anything is written, and no block is promised.
\<close>

theorem SaveTest_block_or_undefined:
  "SaveTest GetInt show_pt fs filename append' subj subj_open clip area count ct fr =
     (if append' \<and> FileExists fs filename then Inl Uninitialised
      else Inr (True, fs(filename \<mapsto>
                  test_block show_pt 1 subj subj_open clip area count ct fr)))"
proof (cases "append' \<and> FileExists fs filename")
  case True
  then show ?thesis by (simp add: SaveTest_def get_last_text_no_indeterminate)
next
  case False
  have "SaveTest GetInt show_pt fs filename append' subj subj_open clip area count ct fr =
          Inr (True, (fs(filename := None))(filename \<mapsto>
                    test_block show_pt 1 subj subj_open clip area count ct fr))"
    using False unfolding SaveTest_def test_block_def Let_def
    by (cases subj; cases subj_open; cases clip)
      (auto simp: FileExists_def cliptype_string_def fillrule_string_def endl_def
        PathsToStream_concat)
  moreover from False have "(append' \<and> FileExists fs filename) = False" by simp
  ultimately show ?thesis by (simp only: if_False fun_upd_upd)
qed

subsection \<open>BMH_Search: the search\<close>

lemma FindAll_indeterminate: "FindAll indeterminate_storage hay ndl = Inl Uninitialised"
  by (simp add: FindAll_def BMH_Search_ctor_indeterminate)

lemma FindAll_zeroed_caption:
  "FindAll zeroed_storage ''caption: 1.'' ''CAPTION:'' = Inr []
   \<and> occurrences_ic ''caption: 1.'' ''CAPTION:'' = [0]
   \<and> FindAll zeroed_storage ''CAPTION: 1.'' ''CAPTION:'' = Inr []
   \<and> occurrences_ic ''CAPTION: 1.'' ''CAPTION:'' = [0]
   \<and> FindAll zeroed_storage ''caption:'' ''caption:'' = Inr []
   \<and> occurrences_ic ''caption:'' ''caption:'' = [0]
   \<and> (case BMH_Search_ctor zeroed_storage ''caption: 1.'' ''CAPTION:'' of
         Inl e \<Rightarrow> Nullptr | Inr s \<Rightarrow> needle_ic_' s) = Buffer ''CCCCCCCCC''"
  by code_simp

text \<open>
  Claim C7 says that the search in its default mode reports every position at which the
  haystack matches the needle up to the case of letters, and that a search for
  \<^verbatim>\<open>CAPTION:\<close> also finds \<^verbatim>\<open>caption:\<close>. The code does not do that.

  What the code does. In automatic or dynamic storage the construction of the search has
  undefined behaviour, for every haystack and needle (first line). In static storage, where
  the pointers are null when the constructor runs, the object is constructed and the search
  goes wrong in \<^verbatim>\<open>SetNeedle\<close>, for two reasons: the folded copy \<^verbatim>\<open>needle_ic_\<close> is built
  one cell off (every cell after the first holds the folded first byte; last line), and
  the skip table \<^verbatim>\<open>shift\<close> is indexed by the bytes of the needle as given while
  \<^verbatim>\<open>FindNext_IgnoreCase\<close> looks it up with folded bytes of the haystack. A search for
  \<^verbatim>\<open>CAPTION:\<close> reports nothing in \<^verbatim>\<open>caption: 1.\<close> and nothing in \<^verbatim>\<open>CAPTION: 1.\<close>, where
  position 0 matches. A search for the lower-case needle \<^verbatim>\<open>caption:\<close> reports nothing in
  \<^verbatim>\<open>caption:\<close> itself; this one does not depend on the order in which
  \<^verbatim>\<open>*c = case_table[*c++]\<close> is evaluated, since no byte of the haystack reaches the
  comparison with \<^verbatim>\<open>needle_ic_\<close>.
\<close>

theorem FindAll_misses_caption:
  "FindAll indeterminate_storage hay ndl = Inl Uninitialised
   \<and> FindAll zeroed_storage ''caption: 1.'' ''CAPTION:'' = Inr []
   \<and> occurrences_ic ''caption: 1.'' ''CAPTION:'' = [0]
   \<and> FindAll zeroed_storage ''CAPTION: 1.'' ''CAPTION:'' = Inr []
   \<and> occurrences_ic ''CAPTION: 1.'' ''CAPTION:'' = [0]
   \<and> FindAll zeroed_storage ''caption:'' ''caption:'' = Inr []
   \<and> occurrences_ic ''caption:'' ''caption:'' = [0]
   \<and> (case BMH_Search_ctor zeroed_storage ''caption: 1.'' ''CAPTION:'' of
         Inl e \<Rightarrow> Nullptr | Inr s \<Rightarrow> needle_ic_' s) = Buffer ''CCCCCCCCC''"
  using FindAll_indeterminate[of hay ndl] FindAll_zeroed_caption by (simp only: simp_thms)

subsection \<open>SaveTest: the caption number\<close>

text \<open>
  The caption search on the block that a first call of \<^verbatim>\<open>SaveTest\<close> writes, run with
  an object whose pointers are null when the constructor starts: it is constructed, and it
  finds no caption.
\<close>

lemma get_last_text_no_zeroed_first_block:
  "get_last_text_no zeroed_storage GetInt
     ''CAPTION: 1.\<newline>CLIPTYPE: INTERSECTION\<newline>FILLRULE: EVENODD\<newline>SOL_AREA: 25\<newline>SOL_COUNT: 1\<newline>\<newline>''
   = Inr 0"
  by code_simp

text \<open>
  Claim C9 says that a call that appends to a file with a \<^verbatim>\<open>CAPTION:\<close> line writes the
  number after the last such line plus one, and that \<^verbatim>\<open>SaveTest\<close> always returns true.

  What the code does when a second test is appended to the file that a first call of
  \<^verbatim>\<open>SaveTest\<close> wrote, whatever \<^verbatim>\<open>GetInt\<close> and the printer of points are: it constructs the
  search object in automatic storage, which is undefined behaviour; nothing is written and
  no return value is promised (first line). The second line is the search for the caption
  on the same file in storage whose pointers are null: it ends with \<^verbatim>\<open>last_text_no\<close> still
  0, so even where the construction goes through the next caption is 1, not 2.
\<close>

theorem SaveTest_append_undefined:
  "SaveTest GetInt show_pt
     ((\<lambda>name. None)(''tests.txt'' \<mapsto>
  ''CAPTION: 1.\<newline>CLIPTYPE: INTERSECTION\<newline>FILLRULE: EVENODD\<newline>SOL_AREA: 25\<newline>SOL_COUNT: 1\<newline>\<newline>''))
     ''tests.txt'' True None None None 175 1 Union NonZero
   = Inl Uninitialised
   \<and> get_last_text_no zeroed_storage GetInt
  ''CAPTION: 1.\<newline>CLIPTYPE: INTERSECTION\<newline>FILLRULE: EVENODD\<newline>SOL_AREA: 25\<newline>SOL_COUNT: 1\<newline>\<newline>''
   = Inr 0"
  by (simp add: SaveTest_def FileExists_def get_last_text_no_indeterminate
      get_last_text_no_zeroed_first_block)

end
